theory Spec2Isabelle
  imports Main "HOL-Library.Char_ord" "HOL-Library.List_Lexorder" "HOL-Library.Word"
begin

section \<open>Strings\<close>

text \<open>
  Go strings are byte sequences; they are modelled as \<open>string\<close> (a list of bytes).
  With \<open>Char_ord\<close> and \<open>List_Lexorder\<close> the order \<open><\<close> on \<open>string\<close> is the bytewise
  lexicographic order, which is what Go's \<open><\<close> on strings computes.

  \<open>strings.TrimSpace\<close> and \<open>strings.ToLower\<close> are modelled on the ASCII range: the six
  ASCII white-space bytes are trimmed and the bytes \<open>A\<close>..\<open>Z\<close> are lowered; bytes of
  multi-byte UTF-8 sequences are left as they are.
\<close>

definition isSpace :: "char \<Rightarrow> bool" where
  "isSpace c = (c \<in> set [CHR 0x09, CHR 0x0A, CHR 0x0B, CHR 0x0C, CHR 0x0D, CHR 0x20])"

definition TrimSpace :: "string \<Rightarrow> string" where
  "TrimSpace s = rev (dropWhile isSpace (rev (dropWhile isSpace s)))"

definition lowerChar :: "char \<Rightarrow> char" where
  "lowerChar c =
     (case map_of (zip ''ABCDEFGHIJKLMNOPQRSTUVWXYZ'' ''abcdefghijklmnopqrstuvwxyz'') c of
        Some l \<Rightarrow> l
      | None \<Rightarrow> c)"

definition ToLower :: "string \<Rightarrow> string" where
  "ToLower s = map lowerChar s"

fun hasPrefix :: "string \<Rightarrow> string \<Rightarrow> bool" where
  "hasPrefix s [] = True"
| "hasPrefix [] (p # ps) = False"
| "hasPrefix (c # cs) (p # ps) = (c = p \<and> hasPrefix cs ps)"

fun Contains :: "string \<Rightarrow> string \<Rightarrow> bool" where
  "Contains [] sub = hasPrefix [] sub"
| "Contains (c # cs) sub = (hasPrefix (c # cs) sub \<or> Contains cs sub)"

section \<open>Domain errors\<close>

record Error =
  Code :: string
  Message :: string
  Details :: string

definition ErrCodeValidation :: string where "ErrCodeValidation = ''VALIDATION_ERROR''"
definition ErrCodeUnauthorized :: string where "ErrCodeUnauthorized = ''UNAUTHORIZED''"
definition ErrCodeForbidden :: string where "ErrCodeForbidden = ''FORBIDDEN''"
definition ErrCodeInvalidToken :: string where "ErrCodeInvalidToken = ''INVALID_TOKEN''"
definition ErrCodeInvalidPassword :: string where "ErrCodeInvalidPassword = ''INVALID_PASSWORD''"
definition ErrCodeNotFound :: string where "ErrCodeNotFound = ''NOT_FOUND''"
definition ErrCodeAlreadyExists :: string where "ErrCodeAlreadyExists = ''ALREADY_EXISTS''"
definition ErrCodeInternal :: string where "ErrCodeInternal = ''INTERNAL_ERROR''"
definition ErrCodeDatabase :: string where "ErrCodeDatabase = ''DATABASE_ERROR''"

text \<open>
  An error value of the program is a pointer \<open>*Error\<close>. The service compares such
  pointers with \<open>==\<close> against the package-level variables, so the model keeps the
  identity: each predefined error is a constructor of its own, and an error allocated
  by \<open>NewError\<close>, \<open>WrapError\<close> or \<open>ValidationError\<close> is \<open>NewErr\<close>, which is different
  from every predefined error even when the fields agree.
\<close>

datatype err =
    ErrUserNotFound
  | ErrUserExists
  | ErrInvalidPassword
  | ErrInvalidToken
  | NewErr Error

fun the_Error :: "err \<Rightarrow> Error" where
  "the_Error ErrUserNotFound = \<lparr>Code = ErrCodeNotFound, Message = ''User not found'', Details = []\<rparr>"
| "the_Error ErrUserExists = \<lparr>Code = ErrCodeAlreadyExists, Message = ''User already exists'', Details = []\<rparr>"
| "the_Error ErrInvalidPassword = \<lparr>Code = ErrCodeInvalidPassword, Message = ''Invalid password'', Details = []\<rparr>"
| "the_Error ErrInvalidToken = \<lparr>Code = ErrCodeInvalidToken, Message = ''Invalid token'', Details = []\<rparr>"
| "the_Error (NewErr e) = e"

definition err_Code :: "err \<Rightarrow> string" where
  "err_Code e = Code (the_Error e)"

definition NewError :: "string \<Rightarrow> string \<Rightarrow> err" where
  "NewError code message = NewErr \<lparr>Code = code, Message = message, Details = []\<rparr>"

text \<open>\<open>WrapError\<close> takes the text \<open>err.Error()\<close> of the wrapped error.\<close>

definition WrapError :: "string \<Rightarrow> string \<Rightarrow> string \<Rightarrow> err" where
  "WrapError cause code message = NewErr \<lparr>Code = code, Message = message, Details = cause\<rparr>"

definition ValidationError :: "string \<Rightarrow> string \<Rightarrow> err" where
  "ValidationError field message =
     NewErr \<lparr>Code = ErrCodeValidation,
             Message = ''Validation failed for field '' @ [CHR 0x27] @ field @ [CHR 0x27] @ '': '' @ message,
             Details = ''field='' @ field\<rparr>"

section \<open>Users\<close>

text \<open>
  \<open>uint\<close> identifiers are natural numbers; a \<open>time.Time\<close> is the number of nanoseconds
  since the Unix epoch.
\<close>

type_synonym time = int

record User =
  ID :: nat
  Email :: string
  Password :: string
  Name :: string
  Role :: string
  Active :: bool
  CreatedAt :: time
  UpdatedAt :: time

text \<open>The requests of the service and the view of a user it returns (no password).\<close>

record UserCreateRequest =
  req_Email :: string
  req_Password :: string
  req_Name :: string
  req_Role :: string

record UserLoginRequest =
  login_Email :: string
  login_Password :: string

record UserResponse =
  resp_ID :: nat
  resp_Email :: string
  resp_Name :: string
  resp_Role :: string
  resp_Active :: bool
  resp_CreatedAt :: time
  resp_UpdatedAt :: time

definition ToResponse :: "User \<Rightarrow> UserResponse" where
  "ToResponse u =
     \<lparr>resp_ID = ID u, resp_Email = Email u, resp_Name = Name u, resp_Role = Role u,
      resp_Active = Active u, resp_CreatedAt = CreatedAt u, resp_UpdatedAt = UpdatedAt u\<rparr>"

section \<open>The token service\<close>

text \<open>
  A \<open>time.Duration\<close> is a signed 64-bit count of nanoseconds; \<open>Time.Sub\<close> saturates at
  its bounds, and \<open>time.Until t\<close> is \<open>t.Sub(time.Now())\<close>. The readings of the clock
  within one call are taken to be one instant, \<open>now\<close>.
\<close>

type_synonym Duration = int






text \<open>
  The registered claims are pointers to numeric dates, which a token may lack;
  \<open>jwt.NewNumericDate\<close> truncates a time to the second.
\<close>

record JWTClaims =
  jc_UserID :: nat
  jc_Email :: string
  jc_Role :: string
  jc_ExpiresAt :: "time option"
  jc_IssuedAt :: "time option"
  jc_NotBefore :: "time option"
  jc_Issuer :: string
  jc_Subject :: string

definition NewNumericDate :: "time \<Rightarrow> time option" where
  "NewNumericDate t = Some (t - t mod 1000000000)"


definition GenerateToken ::
  "(JWTClaims \<Rightarrow> string + string) \<Rightarrow> Duration \<Rightarrow> time \<Rightarrow> User \<Rightarrow> err + string" where
  "GenerateToken sign expiration now user =
     (case sign \<lparr>jc_UserID = ID user, jc_Email = Email user, jc_Role = Role user,
                  jc_ExpiresAt = NewNumericDate (now + expiration),
                  jc_IssuedAt = NewNumericDate now,
                  jc_NotBefore = NewNumericDate now,
                  jc_Issuer = ''fx-gin-scaffold'',
                  jc_Subject = Email user\<rparr> of
        Inl e \<Rightarrow> Inl (WrapError e ErrCodeInternal ''Failed to generate token'')
      | Inr tokenString \<Rightarrow> Inr tokenString)"



section \<open>The user service\<close>

text \<open>
  The service works on a \<open>UserRepository\<close>, an interface: here the two methods that
  \<open>Register\<close> and \<open>Login\<close> call, as functions of the state \<open>'r\<close> of the store. \<open>Create\<close>
  returns its error, the user as it leaves it (the identifier and the timestamps are
  set on the caller's value) and the new state.
\<close>

record 'r UserRepository =
  repo_GetByEmail :: "'r \<Rightarrow> string \<Rightarrow> err + User"
  repo_Create :: "'r \<Rightarrow> User \<Rightarrow> err option \<times> User \<times> 'r"

text \<open>The calls a service function makes on the repository, in order, with their arguments.\<close>

datatype repo_call = CallGetByEmail string | CallCreate User

definition validateCreateRequest :: "UserCreateRequest \<Rightarrow> err option" where
  "validateCreateRequest req =
     (if TrimSpace (req_Email req) = [] then Some (ValidationError ''email'' ''is required'')
      else if TrimSpace (req_Name req) = [] then Some (ValidationError ''name'' ''is required'')
      else if length (TrimSpace (req_Name req)) < 2 then
        Some (ValidationError ''name'' ''must be at least 2 characters'')
      else if length (req_Password req) < 8 then
        Some (ValidationError ''password'' ''must be at least 8 characters'')
      else None)"

definition validateLoginRequest :: "UserLoginRequest \<Rightarrow> err option" where
  "validateLoginRequest req =
     (if TrimSpace (login_Email req) = [] then Some (ValidationError ''email'' ''is required'')
      else if login_Password req = [] then Some (ValidationError ''password'' ''is required'')
      else None)"

definition getDefaultRole :: "string \<Rightarrow> string" where
  "getDefaultRole requestedRole =
     (if requestedRole = ''admin'' \<or> requestedRole = ''user'' then requestedRole else ''user'')"

text \<open>
  \<open>hash\<close> stands for \<open>bcrypt.GenerateFromPassword\<close> (the digest, or the text of its
  error) and \<open>check digest password\<close> for \<open>bcrypt.CompareHashAndPassword\<close> returning no
  error. \<open>Register\<close> returns its result, the state of the store and the calls it made.
\<close>

definition Register ::
  "(string \<Rightarrow> string + string) \<Rightarrow> time \<Rightarrow> 'r UserRepository \<Rightarrow> 'r \<Rightarrow> UserCreateRequest
     \<Rightarrow> (err + UserResponse) \<times> 'r \<times> repo_call list" where
  "Register hash now repo r req =
     (case validateCreateRequest req of
        Some e \<Rightarrow> (Inl e, r, [])
      | None \<Rightarrow>
          (case repo_GetByEmail repo r (req_Email req) of
             Inr found \<Rightarrow> (Inl ErrUserExists, r, [CallGetByEmail (req_Email req)])
           | Inl e \<Rightarrow>
               if e \<noteq> ErrUserNotFound then (Inl e, r, [CallGetByEmail (req_Email req)])
               else
                 (let user = \<lparr>ID = 0,
                              Email = ToLower (TrimSpace (req_Email req)),
                              Password = req_Password req,
                              Name = TrimSpace (req_Name req),
                              Role = getDefaultRole (req_Role req),
                              Active = True,
                              CreatedAt = now,
                              UpdatedAt = now\<rparr>
                  in case hash (Password user) of
                       Inl e \<Rightarrow>
                         (Inl (WrapError e ErrCodeInternal ''Failed to hash password''), r,
                          [CallGetByEmail (req_Email req)])
                     | Inr digest \<Rightarrow>
                         (case repo_Create repo r (user\<lparr>Password := digest\<rparr>) of
                            (Some e, user', r') \<Rightarrow>
                              (Inl e, r',
                               [CallGetByEmail (req_Email req), CallCreate (user\<lparr>Password := digest\<rparr>)])
                          | (None, user', r') \<Rightarrow>
                              (Inr (ToResponse user'), r',
                               [CallGetByEmail (req_Email req), CallCreate (user\<lparr>Password := digest\<rparr>)])))))"

text \<open>
  \<open>generate\<close> stands for the \<open>GenerateToken\<close> of the token service the user service was
  built with. \<open>Login\<close> only reads the store.
\<close>

definition Login ::
  "(string \<Rightarrow> string \<Rightarrow> bool) \<Rightarrow> (User \<Rightarrow> err + string) \<Rightarrow> 'r UserRepository \<Rightarrow> 'r \<Rightarrow> UserLoginRequest
     \<Rightarrow> err + string \<times> UserResponse" where
  "Login check generate repo r req =
     (case validateLoginRequest req of
        Some e \<Rightarrow> Inl e
      | None \<Rightarrow>
          (case repo_GetByEmail repo r (ToLower (TrimSpace (login_Email req))) of
             Inl e \<Rightarrow> if e = ErrUserNotFound then Inl ErrInvalidPassword else Inl e
           | Inr user \<Rightarrow>
               if \<not> Active user then Inl (NewError ErrCodeForbidden ''Account is deactivated'')
               else if \<not> check (Password user) (login_Password req) then Inl ErrInvalidPassword
               else (case generate user of
                       Inl e \<Rightarrow> Inl e
                     | Inr token \<Rightarrow> Inr (token, ToResponse user))))"

section \<open>The backends\<close>

text \<open>
  Both repositories are modelled over a store held in memory: a table is the list of its
  rows, a collection the list of its documents, in insertion order. A call of the driver
  can fail for reasons of its own (the connection, the context); \<open>faults\<close> says which
  calls do, with the text of the error. A call that fails writes nothing.
\<close>

datatype driver_call =
    CreateCall | FirstCall | CountCall | FindCall
  | UpdateOneCall | CountDocumentsCall | CursorAllCall

type_synonym faults = "driver_call \<Rightarrow> string option"

definition no_faults :: faults where
  "no_faults c = None"


section \<open>The relational repository\<close>

text \<open>
  The repository is built for the drivers \<open>sqlite\<close> and \<open>postgres\<close>. The table \<open>users\<close>
  has the primary key \<open>id\<close>, filled from a counter when the user comes with \<open>ID = 0\<close>, and
  the unique index \<open>idx_users_email\<close>; an insert that breaks either fails with the
  driver's text (given here for the empty table prefix). The columns \<open>role\<close> and
  \<open>active\<close> have the defaults \<open>user\<close> and \<open>true\<close>, which the ORM applies to a zero value
  on insert: an empty role becomes \<open>user\<close>, and a flag that is false, the zero value,
  becomes true, so every inserted row is active. Zero timestamps are filled with the
  current time.
\<close>

datatype sql_driver = SQLite | Postgres

datatype users_key = PrimaryKey | EmailIndex

record table =
  rows :: "User list"
  next_id :: nat

definition zeroTime :: time where
  "zeroTime = - 62135596800000000000"

definition unique_violation :: "sql_driver \<Rightarrow> users_key \<Rightarrow> string" where
  "unique_violation drv key =
     (case drv of
        SQLite \<Rightarrow>
          ''UNIQUE constraint failed: users.'' @
          (case key of PrimaryKey \<Rightarrow> ''id'' | EmailIndex \<Rightarrow> ''email'')
      | Postgres \<Rightarrow>
          ''ERROR: duplicate key value violates unique constraint '' @ [CHR 0x22] @
          (case key of PrimaryKey \<Rightarrow> ''users_pkey'' | EmailIndex \<Rightarrow> ''idx_users_email'') @
          [CHR 0x22] @ '' (SQLSTATE 23505)'')"

definition isUniqueConstraintError :: "string option \<Rightarrow> bool" where
  "isUniqueConstraintError err =
     (case err of
        None \<Rightarrow> False
      | Some msg \<Rightarrow>
          (let errStr = ToLower msg in
           if Contains errStr ''duplicate key'' \<or> Contains errStr ''violates unique constraint'' then True
           else if Contains errStr ''unique constraint failed'' \<or> Contains errStr ''constraint failed: unique'' then True
           else if Contains errStr ''duplicate entry'' then True
           else False))"

definition db_Create :: "sql_driver \<Rightarrow> time \<Rightarrow> table \<Rightarrow> User \<Rightarrow> string option \<times> User \<times> table" where
  "db_Create drv now t user =
     (let u = user\<lparr>ID := (if ID user = 0 then next_id t else ID user),
                    Role := (if Role user = [] then ''user'' else Role user),
                    Active := True,
                    CreatedAt := (if CreatedAt user = zeroTime then now else CreatedAt user),
                    UpdatedAt := (if UpdatedAt user = zeroTime then now else UpdatedAt user)\<rparr>
      in if ID u \<in> set (map ID (rows t)) then (Some (unique_violation drv PrimaryKey), user, t)
         else if Email u \<in> set (map Email (rows t)) then (Some (unique_violation drv EmailIndex), user, t)
         else (None, u, \<lparr>rows = rows t @ [u], next_id = max (next_id t) (ID u) + 1\<rparr>))"

definition gorm_Create ::
  "faults \<Rightarrow> sql_driver \<Rightarrow> time \<Rightarrow> table \<Rightarrow> User \<Rightarrow> err option \<times> User \<times> table" where
  "gorm_Create flt drv now t user =
     (case (case flt CreateCall of
              Some e \<Rightarrow> (Some e, user, t)
            | None \<Rightarrow> db_Create drv now t user) of
        (Some e, user', t') \<Rightarrow>
          if isUniqueConstraintError (Some e) then (Some ErrUserExists, user', t')
          else (Some (WrapError e ErrCodeDatabase ''Failed to create user''), user', t')
      | (None, user', t') \<Rightarrow> (None, user', t'))"

definition gorm_GetByEmail :: "faults \<Rightarrow> table \<Rightarrow> string \<Rightarrow> err + User" where
  "gorm_GetByEmail flt t email =
     (case flt FirstCall of
        Some e \<Rightarrow> Inl (WrapError e ErrCodeDatabase ''Failed to get user by email'')
      | None \<Rightarrow>
          (case find (\<lambda>u. Email u = email) (rows t) of
             None \<Rightarrow> Inl ErrUserNotFound
           | Some user \<Rightarrow> Inr user))"





text \<open>The relational repository as a \<open>UserRepository\<close>, for a service to be built on.\<close>

definition gorm_repo :: "faults \<Rightarrow> sql_driver \<Rightarrow> time \<Rightarrow> table UserRepository" where
  "gorm_repo flt drv now =
     \<lparr>repo_GetByEmail = gorm_GetByEmail flt, repo_Create = gorm_Create flt drv now\<rparr>"

section \<open>The document-store repository\<close>

text \<open>
  A \<open>primitive.ObjectID\<close> is twelve bytes, the first four of which are the creation time
  in seconds (big endian); \<open>Timestamp().Unix()\<close> reads them back. The zero identifier is
  the one a document is given before the store assigns its own.
\<close>

type_synonym ObjectID = "96 word"

definition oid_Timestamp_Unix :: "ObjectID \<Rightarrow> nat" where
  "oid_Timestamp_Unix oid = unat (drop_bit 64 oid)"

record mongoUser =
  mu_ID :: ObjectID
  mu_Email :: string
  mu_Password :: string
  mu_Name :: string
  mu_Role :: string
  mu_Active :: bool
  mu_CreatedAt :: time
  mu_UpdatedAt :: time

text \<open>The collection \<open>users\<close>: its documents in insertion order.\<close>

type_synonym collection = "mongoUser list"

definition toDomainUser :: "mongoUser \<Rightarrow> User" where
  "toDomainUser m =
     \<lparr>ID = oid_Timestamp_Unix (mu_ID m), Email = mu_Email m, Password = mu_Password m,
      Name = mu_Name m, Role = mu_Role m, Active = mu_Active m,
      CreatedAt = mu_CreatedAt m, UpdatedAt = mu_UpdatedAt m\<rparr>"

text \<open>\<open>newOID\<close> is the identifier \<open>primitive.NewObjectID()\<close> would return.\<close>

definition fromDomainUser :: "ObjectID \<Rightarrow> User \<Rightarrow> mongoUser" where
  "fromDomainUser newOID user =
     \<lparr>mu_ID = (if ID user \<noteq> 0 then newOID else 0),
      mu_Email = Email user, mu_Password = Password user, mu_Name = Name user,
      mu_Role = Role user, mu_Active = Active user,
      mu_CreatedAt = CreatedAt user, mu_UpdatedAt = UpdatedAt user\<rparr>"

definition mongo_GetByID :: "collection \<Rightarrow> nat \<Rightarrow> err + User" where
  "mongo_GetByID coll ident =
     Inl (NewError ErrCodeNotFound ''GetByID not implemented for MongoDB - use GetByEmail'')"

text \<open>
  \<open>UpdateOne\<close> applies the update to the first document that matches the filter and
  reports how many documents matched (none or one).
\<close>

fun UpdateOne :: "(mongoUser \<Rightarrow> bool) \<Rightarrow> (mongoUser \<Rightarrow> mongoUser) \<Rightarrow> collection \<Rightarrow> int \<times> collection" where
  "UpdateOne filt upd [] = (0, [])"
| "UpdateOne filt upd (d # ds) =
     (if filt d then (1, upd d # ds)
      else (case UpdateOne filt upd ds of (matched, ds') \<Rightarrow> (matched, d # ds')))"

text \<open>\<open>Update\<close> returns its error, the user as it leaves it and the collection.\<close>

definition mongo_Update ::
  "faults \<Rightarrow> ObjectID \<Rightarrow> time \<Rightarrow> collection \<Rightarrow> User \<Rightarrow> err option \<times> User \<times> collection" where
  "mongo_Update flt newOID now coll user =
     (let mongoUser = (fromDomainUser newOID user)\<lparr>mu_UpdatedAt := now\<rparr> in
      case flt UpdateOneCall of
        Some e \<Rightarrow> (Some (WrapError e ErrCodeDatabase ''Failed to update user''), user, coll)
      | None \<Rightarrow>
          (case UpdateOne (\<lambda>d. mu_Email d = Email user)
                  (\<lambda>d. d\<lparr>mu_Name := mu_Name mongoUser, mu_Role := mu_Role mongoUser,
                          mu_Active := mu_Active mongoUser, mu_UpdatedAt := mu_UpdatedAt mongoUser\<rparr>)
                  coll of
             (matchedCount, coll') \<Rightarrow>
               if matchedCount = 0 then (Some ErrUserNotFound, user, coll')
               else (None, user\<lparr>UpdatedAt := mu_UpdatedAt mongoUser\<rparr>, coll')))"

text \<open>\<open>Delete\<close> returns its error and the collection as it leaves it.\<close>

definition mongo_Delete :: "collection \<Rightarrow> nat \<Rightarrow> err option \<times> collection" where
  "mongo_Delete coll ident =
     (Some (NewError ErrCodeNotFound ''Delete by ID not implemented for MongoDB''), coll)"





text \<open>
  A document with the four fields that \<open>Update\<close> sets blanked out: what is left is the
  identifier, the email, the password and the creation time.
\<close>

definition other_fields :: "mongoUser \<Rightarrow> mongoUser" where
  "other_fields d = d\<lparr>mu_Name := [], mu_Role := [], mu_Active := False, mu_UpdatedAt := 0\<rparr>"

section \<open>The migration runner\<close>

text \<open>
  A \<open>database.Connection\<close> holds a relational handle and a document-store handle; every
  function of the runner uses the relational one when it is set, else the document one,
  else fails. \<open>handle\<close> is that choice. The ledger is the table (or collection)
  \<open>migrations\<close>: its rows in insertion order; a table that does not exist yet is the empty
  ledger. \<open>schema\<close> stands for everything else the forward actions act on.
\<close>

datatype handle = GORM | Mongo | NoHandle

record ledger_row =
  lr_version :: string
  lr_description :: string
  lr_executed_at :: time

record 's Connection =
  conn :: handle
  ledger :: "ledger_row list"
  schema :: 's

text \<open>
  A \<open>Migration\<close> is an interface value: its four methods. \<open>Up\<close> and \<open>Down\<close> return their
  error (the text of it) and the schema as they leave it.
\<close>

record 's Migration =
  Version :: string
  Description :: string
  Up :: "'s \<Rightarrow> string option \<times> 's"
  Down :: "'s \<Rightarrow> string option \<times> 's"

record 's Migrator =
  db :: "'s Connection"
  migrations :: "'s Migration list"

definition no_connection :: string where
  "no_connection = ''no database connection available''"

text \<open>
  The version column is the primary key of the table, and the collection has a unique
  index on it: an insert of a version that is present fails, and so does the creation of
  the unique index over a collection that holds a version twice. The text of the
  backend's error is the backend's own; no property below depends on it.
\<close>

definition duplicate_key :: string where
  "duplicate_key = ''duplicate key''"

definition versions :: "'s Connection \<Rightarrow> string list" where
  "versions d = map lr_version (ledger d)"

definition ensureMigrationTracking :: "'s Connection \<Rightarrow> string option" where
  "ensureMigrationTracking d =
     (case conn d of
        GORM \<Rightarrow> None
      | Mongo \<Rightarrow> (if distinct (versions d) then None else Some duplicate_key)
      | NoHandle \<Rightarrow> Some no_connection)"

definition getExecutedMigrations :: "'s Connection \<Rightarrow> string + (string \<rightharpoonup> bool)" where
  "getExecutedMigrations d =
     (case conn d of
        GORM \<Rightarrow> Inr (fold (\<lambda>v executed. executed(v \<mapsto> True)) (versions d) Map.empty)
      | Mongo \<Rightarrow> Inr (fold (\<lambda>v executed. executed(v \<mapsto> True)) (versions d) Map.empty)
      | NoHandle \<Rightarrow> Inl no_connection)"

definition insert_row :: "ledger_row \<Rightarrow> 's Connection \<Rightarrow> string option \<times> 's Connection" where
  "insert_row r d =
     (if lr_version r \<in> set (versions d) then (Some duplicate_key, d)
      else (None, d\<lparr>ledger := ledger d @ [r]\<rparr>))"

definition recordMigration :: "time \<Rightarrow> 's Connection \<Rightarrow> 's Migration \<Rightarrow> string option \<times> 's Connection" where
  "recordMigration now d m =
     (case conn d of
        GORM \<Rightarrow> insert_row \<lparr>lr_version = Version m, lr_description = Description m, lr_executed_at = now\<rparr> d
      | Mongo \<Rightarrow> insert_row \<lparr>lr_version = Version m, lr_description = Description m, lr_executed_at = now\<rparr> d
      | NoHandle \<Rightarrow> (Some no_connection, d))"

text \<open>The errors of \<open>Migrate\<close>, and the text \<open>fmt.Errorf\<close> gives each.\<close>

datatype migrate_error =
    TrackingFailed string
  | GetExecutedFailed string
  | UpFailed string string
  | RecordFailed string string

fun Error_text :: "migrate_error \<Rightarrow> string" where
  "Error_text (TrackingFailed e) = ''failed to create migration tracking: '' @ e"
| "Error_text (GetExecutedFailed e) = ''failed to get executed migrations: '' @ e"
| "Error_text (UpFailed v e) = ''migration '' @ v @ '' failed: '' @ e"
| "Error_text (RecordFailed v e) = ''failed to record migration '' @ v @ '': '' @ e"

text \<open>
  What the run writes to the log, in order: \<open>migration already executed\<close> (a skip),
  \<open>running migration\<close> (written just before the forward action is called) and
  \<open>migration completed\<close> (written after the ledger row is inserted), each with the
  version, the first two with the description.
\<close>

datatype log_event =
    AlreadyExecuted string string
  | Running string string
  | Completed string

text \<open>The loop over the sorted migrations; \<open>executed\<close> is read once, before the loop.\<close>

fun run_pending ::
  "(string \<rightharpoonup> bool) \<Rightarrow> time \<Rightarrow> 's Migration list \<Rightarrow> 's Connection
     \<Rightarrow> migrate_error option \<times> 's Connection \<times> log_event list" where
  "run_pending executed now [] d = (None, d, [])"
| "run_pending executed now (m # ms) d =
     (if executed (Version m) \<noteq> None then
        (case run_pending executed now ms d of
           (e, d', lg) \<Rightarrow> (e, d', AlreadyExecuted (Version m) (Description m) # lg))
      else
        (case Up m (schema d) of
           (Some e, s') \<Rightarrow>
             (Some (UpFailed (Version m) e), d\<lparr>schema := s'\<rparr>,
              [Running (Version m) (Description m)])
         | (None, s') \<Rightarrow>
             (case recordMigration now (d\<lparr>schema := s'\<rparr>) m of
                (Some e, d') \<Rightarrow>
                  (Some (RecordFailed (Version m) e), d',
                   [Running (Version m) (Description m)])
              | (None, d') \<Rightarrow>
                  (case run_pending executed now ms d' of
                     (e, d'', lg) \<Rightarrow>
                       (e, d'', Running (Version m) (Description m) # Completed (Version m) # lg)))))"

text \<open>
  \<open>Migrate\<close> sorts the registered migrations in place by version (the sorted list stays
  in the migrator), then runs the loop. It returns its error, the migrator as it leaves
  it and the log of the run. \<open>sort.Slice\<close> leaves the order of equal versions open; the
  model keeps their registration order.
\<close>

definition Migrate ::
  "time \<Rightarrow> 's Migrator \<Rightarrow> migrate_error option \<times> 's Migrator \<times> log_event list" where
  "Migrate now m =
     (let m1 = m\<lparr>migrations := sort_key Version (migrations m)\<rparr> in
      case ensureMigrationTracking (db m1) of
        Some e \<Rightarrow> (Some (TrackingFailed e), m1, [])
      | None \<Rightarrow>
          (case getExecutedMigrations (db m1) of
             Inl e \<Rightarrow> (Some (GetExecutedFailed e), m1, [])
           | Inr executed \<Rightarrow>
               (case run_pending executed now (migrations m1) (db m1) of
                  (e, d', lg) \<Rightarrow> (e, m1\<lparr>db := d'\<rparr>, lg))))"

text \<open>Reading the log: the migrations visited, the forward actions called, the rows recorded.\<close>

fun visited :: "log_event list \<Rightarrow> string list" where
  "visited [] = []"
| "visited (AlreadyExecuted v _ # lg) = v # visited lg"
| "visited (Running v _ # lg) = v # visited lg"
| "visited (Completed v # lg) = visited lg"

fun ups :: "log_event list \<Rightarrow> string list" where
  "ups [] = []"
| "ups (AlreadyExecuted v _ # lg) = ups lg"
| "ups (Running v _ # lg) = v # ups lg"
| "ups (Completed v # lg) = ups lg"

fun completed :: "log_event list \<Rightarrow> string list" where
  "completed [] = []"
| "completed (AlreadyExecuted v _ # lg) = completed lg"
| "completed (Running v _ # lg) = completed lg"
| "completed (Completed v # lg) = v # completed lg"

subsection \<open>Example migrators\<close>

text \<open>
  Concrete migrators on which the runner is evaluated below. The schema is the list of
  the tables created so far; \<open>mig_users\<close> has the version and description of the
  repository's one registered migration.
\<close>

definition ok_up :: "string \<Rightarrow> string list \<Rightarrow> string option \<times> string list" where
  "ok_up t s = (None, s @ [t])"

definition failing_up :: "string \<Rightarrow> string list \<Rightarrow> string option \<times> string list" where
  "failing_up e s = (Some e, s)"

definition no_down :: "string list \<Rightarrow> string option \<times> string list" where
  "no_down s = (None, s)"

definition mig_users :: "string list Migration" where
  "mig_users = \<lparr>Version = ''20240815120000'', Description = ''Create users table/collection'',
                 Up = ok_up ''users'', Down = no_down\<rparr>"

definition mig_roles :: "string list Migration" where
  "mig_roles = \<lparr>Version = ''20240901093000'', Description = ''Create roles table'',
                 Up = ok_up ''roles'', Down = no_down\<rparr>"

definition mig_broken :: "string list Migration" where
  "mig_broken = \<lparr>Version = ''20241001080000'', Description = ''Add audit table'',
                 Up = failing_up ''syntax error'', Down = no_down\<rparr>"

definition mig_late :: "string list Migration" where
  "mig_late = \<lparr>Version = ''20241105080000'', Description = ''Add sessions table'',
                 Up = ok_up ''sessions'', Down = no_down\<rparr>"

definition users_row :: ledger_row where
  "users_row = \<lparr>lr_version = ''20240815120000'', lr_description = ''Create users table/collection'',
                 lr_executed_at = 5\<rparr>"

definition example_db :: "string list Connection" where
  "example_db = \<lparr>conn = GORM, ledger = [users_row], schema = [''users'']\<rparr>"

definition example_migrator :: "string list Migrator" where
  "example_migrator = \<lparr>db = example_db, migrations = [mig_late, mig_broken, mig_users, mig_roles]\<rparr>"



subsection \<open>Example stores, requests and tokens\<close>

text \<open>
  A table with an active user and a deactivated one, and the collection and table that
  hold the same two users with the identifiers the document store derives. The digest
  of a password is written \<open>bcrypt:\<close> followed by the password.
\<close>

definition alice :: User where
  "alice = \<lparr>ID = 1, Email = ''alice@example.com'', Password = ''bcrypt:password123'',
            Name = ''Alice A'', Role = ''user'', Active = True,
            CreatedAt = 1700000000000000000, UpdatedAt = 1700000000000000000\<rparr>"

definition bob :: User where
  "bob = \<lparr>ID = 2, Email = ''bob@example.com'', Password = ''bcrypt:hunter2hunter2'',
          Name = ''Bob B'', Role = ''user'', Active = False,
          CreatedAt = 1700000100000000000, UpdatedAt = 1700000200000000000\<rparr>"

definition example_table :: table where
  "example_table = \<lparr>rows = [alice, bob], next_id = 3\<rparr>"

definition alice_oid :: ObjectID where
  "alice_oid = 0x6553F1000A1B2C3D4E5F6071"

definition bob_oid :: ObjectID where
  "bob_oid = 0x6553F1640A1B2C3D4E5F6072"

definition example_collection :: collection where
  "example_collection =
     [\<lparr>mu_ID = alice_oid, mu_Email = ''alice@example.com'', mu_Password = ''bcrypt:password123'',
       mu_Name = ''Alice A'', mu_Role = ''user'', mu_Active = True,
       mu_CreatedAt = 1700000000000000000, mu_UpdatedAt = 1700000000000000000\<rparr>,
      \<lparr>mu_ID = bob_oid, mu_Email = ''bob@example.com'', mu_Password = ''bcrypt:hunter2hunter2'',
       mu_Name = ''Bob B'', mu_Role = ''user'', mu_Active = False,
       mu_CreatedAt = 1700000100000000000, mu_UpdatedAt = 1700000100000000000\<rparr>]"


definition example_hash :: "string \<Rightarrow> string + string" where
  "example_hash password = Inr (''bcrypt:'' @ password)"

definition example_check :: "string \<Rightarrow> string \<Rightarrow> bool" where
  "example_check digest password = (digest = ''bcrypt:'' @ password)"

definition example_generate :: "User \<Rightarrow> err + string" where
  "example_generate user = Inr (''token:'' @ Email user)"

definition carol_request :: UserCreateRequest where
  "carol_request = \<lparr>req_Email = '' Carol@Example.com'', req_Password = ''password123'',
                     req_Name = ''Carol C'', req_Role = ''superuser''\<rparr>"











section \<open>Properties of the error classifier\<close>









section \<open>Properties of the token service\<close>





section \<open>Properties of the relational repository\<close>

lemma gorm_Create_ok:
  assumes "gorm_Create flt drv now t user = (None, user', t')"
  shows "rows t' = rows t @ [user'] \<and> Email user' = Email user \<and> Password user' = Password user \<and>
         Name user' = Name user \<and> Active user' \<and>
         Role user' = (if Role user = [] then ''user'' else Role user)"
  using assms
  by (auto simp: gorm_Create_def db_Create_def Let_def split: option.splits if_splits)





section \<open>Properties of the user service\<close>

subsection \<open>Login\<close>

text \<open>
  Claim C1 (as amended). For every login request that passes the validation (an email
  that is not blank and a password that is not empty): when the repository has no user
  under the normalized email, and when it has an active one whose password does not
  match, \<open>Login\<close> returns the same error, \<open>ErrInvalidPassword\<close>, of code
  \<open>INVALID_PASSWORD\<close>; when the user is not active it returns an error of code
  \<open>FORBIDDEN\<close>, whatever the password.
\<close>

theorem Login_error_kinds:
  assumes valid: "validateLoginRequest req = None"
  shows "(repo_GetByEmail repo r (ToLower (TrimSpace (login_Email req))) = Inl ErrUserNotFound \<longrightarrow>
            Login check generate repo r req = Inl ErrInvalidPassword) \<and>
         (repo_GetByEmail repo r (ToLower (TrimSpace (login_Email req))) = Inr user \<and> Active user \<and>
            \<not> check (Password user) (login_Password req) \<longrightarrow>
            Login check generate repo r req = Inl ErrInvalidPassword) \<and>
         (repo_GetByEmail repo r (ToLower (TrimSpace (login_Email req))) = Inr user \<and> \<not> Active user \<longrightarrow>
            Login check generate repo r req = Inl (NewError ErrCodeForbidden ''Account is deactivated'')) \<and>
         err_Code ErrInvalidPassword = ErrCodeInvalidPassword \<and>
         err_Code (NewError ErrCodeForbidden ''Account is deactivated'') = ErrCodeForbidden \<and>
         ErrCodeForbidden \<noteq> ErrCodeInvalidPassword"
  using valid
  by (simp add: Login_def err_Code_def NewError_def ErrCodeForbidden_def ErrCodeInvalidPassword_def)

lemma trim_lower_nobody:
  "ToLower (TrimSpace '' Nobody@Example.com '') = ''nobody@example.com''"
  by (simp add: ToLower_def TrimSpace_def isSpace_def lowerChar_def)

lemma trim_lower_alice:
  "ToLower (TrimSpace ''Alice@Example.com'') = ''alice@example.com''"
  by (simp add: ToLower_def TrimSpace_def isSpace_def lowerChar_def)

lemma trim_lower_bob:
  "ToLower (TrimSpace ''bob@example.com'') = ''bob@example.com''"
  by (simp add: ToLower_def TrimSpace_def isSpace_def lowerChar_def)

text \<open>
  The theorem at an unknown email, at a wrong password for the active user, and at the
  right and a wrong password for the deactivated user.
\<close>

theorem Login_error_kinds_witness:
  "Login example_check example_generate (gorm_repo no_faults SQLite 0) example_table
      \<lparr>login_Email = '' Nobody@Example.com '', login_Password = ''password123''\<rparr> = Inl ErrInvalidPassword \<and>
   Login example_check example_generate (gorm_repo no_faults SQLite 0) example_table
      \<lparr>login_Email = ''Alice@Example.com'', login_Password = ''password124''\<rparr> = Inl ErrInvalidPassword \<and>
   Login example_check example_generate (gorm_repo no_faults SQLite 0) example_table
      \<lparr>login_Email = ''bob@example.com'', login_Password = ''hunter2hunter2''\<rparr> =
        Inl (NewError ErrCodeForbidden ''Account is deactivated'') \<and>
   Login example_check example_generate (gorm_repo no_faults SQLite 0) example_table
      \<lparr>login_Email = ''bob@example.com'', login_Password = ''wrong''\<rparr> =
        Inl (NewError ErrCodeForbidden ''Account is deactivated'')"
proof -
  let ?repo = "gorm_repo no_faults SQLite 0"
  have v1: "validateLoginRequest \<lparr>login_Email = '' Nobody@Example.com '', login_Password = ''password123''\<rparr> = None"
    and v2: "validateLoginRequest \<lparr>login_Email = ''Alice@Example.com'', login_Password = ''password124''\<rparr> = None"
    and v3: "validateLoginRequest \<lparr>login_Email = ''bob@example.com'', login_Password = ''hunter2hunter2''\<rparr> = None"
    and v4: "validateLoginRequest \<lparr>login_Email = ''bob@example.com'', login_Password = ''wrong''\<rparr> = None"
    by (simp_all add: validateLoginRequest_def TrimSpace_def isSpace_def)
  have g1: "repo_GetByEmail ?repo example_table ''nobody@example.com'' = Inl ErrUserNotFound"
    and g2: "repo_GetByEmail ?repo example_table ''alice@example.com'' = Inr alice"
    and g3: "repo_GetByEmail ?repo example_table ''bob@example.com'' = Inr bob"
    by (simp_all add: gorm_repo_def gorm_GetByEmail_def no_faults_def example_table_def alice_def bob_def)
  have a: "Active alice" "\<not> example_check (Password alice) ''password124''" "\<not> Active bob"
    by (simp_all add: alice_def bob_def example_check_def)
  show ?thesis
    using Login_error_kinds [OF v1, where repo = ?repo and r = example_table and check = example_check
          and generate = example_generate and user = alice]
      Login_error_kinds [OF v2, where repo = ?repo and r = example_table and check = example_check
          and generate = example_generate and user = alice]
      Login_error_kinds [OF v3, where repo = ?repo and r = example_table and check = example_check
          and generate = example_generate and user = bob]
      Login_error_kinds [OF v4, where repo = ?repo and r = example_table and check = example_check
          and generate = example_generate and user = bob]
      g1 g2 g3 a
    by (simp add: trim_lower_nobody trim_lower_alice trim_lower_bob)
qed

text \<open>
  Without the validation the statement fails: an empty password is a wrong password for
  the active user, and a password for the deactivated one, yet \<open>Login\<close> answers both
  requests with a validation error, before it looks the user up.
\<close>

theorem Login_empty_password_counterexample:
  "repo_GetByEmail (gorm_repo no_faults SQLite 0) example_table (ToLower (TrimSpace ''alice@example.com'')) = Inr alice \<and>
   Active alice \<and> \<not> example_check (Password alice) [] \<and>
   Login example_check example_generate (gorm_repo no_faults SQLite 0) example_table
      \<lparr>login_Email = ''alice@example.com'', login_Password = []\<rparr> =
        Inl (ValidationError ''password'' ''is required'') \<and>
   err_Code (ValidationError ''password'' ''is required'') = ErrCodeValidation \<and>
   ErrCodeValidation \<noteq> ErrCodeInvalidPassword \<and>
   repo_GetByEmail (gorm_repo no_faults SQLite 0) example_table (ToLower (TrimSpace ''bob@example.com'')) = Inr bob \<and>
   \<not> Active bob \<and>
   Login example_check example_generate (gorm_repo no_faults SQLite 0) example_table
      \<lparr>login_Email = ''bob@example.com'', login_Password = []\<rparr> =
        Inl (ValidationError ''password'' ''is required'') \<and>
   ErrCodeValidation \<noteq> ErrCodeForbidden"
  by (simp add: Login_def validateLoginRequest_def TrimSpace_def ToLower_def lowerChar_def isSpace_def
      gorm_repo_def gorm_GetByEmail_def no_faults_def example_table_def alice_def bob_def
      example_check_def err_Code_def ValidationError_def ErrCodeValidation_def
      ErrCodeInvalidPassword_def ErrCodeForbidden_def)

subsection \<open>Registration\<close>

lemma getDefaultRole_cases:
  "getDefaultRole role = ''user'' \<or> getDefaultRole role = ''admin''"
  by (auto simp: getDefaultRole_def)

lemma Register_calls:
  "snd (snd (Register hash now repo r req)) = [] \<or>
   snd (snd (Register hash now repo r req)) = [CallGetByEmail (req_Email req)] \<or>
   (\<exists>digest. hash (req_Password req) = Inr digest \<and>
      snd (snd (Register hash now repo r req)) =
        [CallGetByEmail (req_Email req),
         CallCreate \<lparr>ID = 0, Email = ToLower (TrimSpace (req_Email req)), Password = digest,
                      Name = TrimSpace (req_Name req), Role = getDefaultRole (req_Role req),
                      Active = True, CreatedAt = now, UpdatedAt = now\<rparr>])"
  by (auto simp: Register_def Let_def split: option.splits sum.splits prod.splits)

text \<open>
  Claim C8. Whatever the repository answers, a user that \<open>Register\<close> hands to \<open>Create\<close>
  has the requested role when that is \<open>admin\<close> or \<open>user\<close> and the role \<open>user\<close> for every
  other request (the empty role too), so never a role outside the two, and is active.
  On the relational repository a successful registration appends exactly one row, with
  that role and active, and answers with them.
\<close>

theorem Register_role_active:
  "(\<forall>u. CallCreate u \<in> set (snd (snd (Register hash now repo r req))) \<longrightarrow>
      Role u = (if req_Role req = ''admin'' \<or> req_Role req = ''user'' then req_Role req else ''user'') \<and>
      (Role u = ''user'' \<or> Role u = ''admin'') \<and> Active u) \<and>
   (Register hash now (gorm_repo flt drv now') t req = (Inr resp, t', calls) \<longrightarrow>
      (\<exists>u. rows t' = rows t @ [u] \<and>
           Role u = (if req_Role req = ''admin'' \<or> req_Role req = ''user'' then req_Role req else ''user'') \<and>
           Active u \<and> resp_Role resp = Role u \<and> resp_Active resp))"
proof -
  have role: "getDefaultRole (req_Role req) =
      (if req_Role req = ''admin'' \<or> req_Role req = ''user'' then req_Role req else ''user'')"
    by (simp add: getDefaultRole_def)
  have first: "\<forall>u. CallCreate u \<in> set (snd (snd (Register hash now repo r req))) \<longrightarrow>
      Role u = (if req_Role req = ''admin'' \<or> req_Role req = ''user'' then req_Role req else ''user'') \<and>
      (Role u = ''user'' \<or> Role u = ''admin'') \<and> Active u"
    using Register_calls [of hash now repo r req] getDefaultRole_cases [of "req_Role req"] role
    by auto
  have second: "\<exists>u. rows t' = rows t @ [u] \<and>
           Role u = (if req_Role req = ''admin'' \<or> req_Role req = ''user'' then req_Role req else ''user'') \<and>
           Active u \<and> resp_Role resp = Role u \<and> resp_Active resp"
    if run: "Register hash now (gorm_repo flt drv now') t req = (Inr resp, t', calls)"
  proof -
    from run obtain digest user' where
      cr: "gorm_Create flt drv now' t
            \<lparr>ID = 0, Email = ToLower (TrimSpace (req_Email req)), Password = digest,
             Name = TrimSpace (req_Name req), Role = getDefaultRole (req_Role req),
             Active = True, CreatedAt = now, UpdatedAt = now\<rparr> = (None, user', t')"
      and resp: "resp = ToResponse user'"
      by (auto simp: Register_def Let_def gorm_repo_def split: option.splits sum.splits prod.splits if_splits)
    have ne: "getDefaultRole (req_Role req) \<noteq> []"
      using getDefaultRole_cases [of "req_Role req"] by auto
    from gorm_Create_ok [OF cr] ne role resp
    have "rows t' = rows t @ [user'] \<and>
           Role user' = (if req_Role req = ''admin'' \<or> req_Role req = ''user'' then req_Role req else ''user'') \<and>
           Active user' \<and> resp_Role resp = Role user' \<and> resp_Active resp"
      by (simp add: ToResponse_def)
    then show ?thesis by blast
  qed
  from first second show ?thesis by blast
qed

lemma carol_normalized: "ToLower (TrimSpace '' Carol@Example.com'') = ''carol@example.com''"
  by (simp add: ToLower_def TrimSpace_def isSpace_def lowerChar_def)

lemma carol_name: "TrimSpace ''Carol C'' = ''Carol C''"
  by (simp add: TrimSpace_def isSpace_def)

lemma carol_valid: "validateCreateRequest carol_request = None"
  by (simp add: validateCreateRequest_def carol_request_def TrimSpace_def isSpace_def)

lemma carol_registered:
  "Register example_hash 1700000300000000000 (gorm_repo no_faults SQLite 1700000300000000000)
      example_table carol_request =
     (Inr \<lparr>resp_ID = 3, resp_Email = ''carol@example.com'', resp_Name = ''Carol C'', resp_Role = ''user'',
           resp_Active = True, resp_CreatedAt = 1700000300000000000,
           resp_UpdatedAt = 1700000300000000000\<rparr>,
      \<lparr>rows = [alice, bob,
          \<lparr>ID = 3, Email = ''carol@example.com'', Password = ''bcrypt:password123'', Name = ''Carol C'',
           Role = ''user'', Active = True, CreatedAt = 1700000300000000000,
           UpdatedAt = 1700000300000000000\<rparr>],
        next_id = 4\<rparr>,
      [CallGetByEmail '' Carol@Example.com'',
       CallCreate \<lparr>ID = 0, Email = ''carol@example.com'', Password = ''bcrypt:password123'',
                    Name = ''Carol C'', Role = ''user'', Active = True,
                    CreatedAt = 1700000300000000000, UpdatedAt = 1700000300000000000\<rparr>])"
  by (simp add: Register_def carol_valid)
     (simp add: Let_def carol_request_def carol_normalized carol_name gorm_repo_def gorm_GetByEmail_def
        gorm_Create_def db_Create_def no_faults_def example_table_def alice_def bob_def example_hash_def
        getDefaultRole_def ToResponse_def zeroTime_def)

text \<open>The theorem at a request for the role \<open>superuser\<close>, which is stored as \<open>user\<close>.\<close>

theorem Register_role_active_witness:
  "Register example_hash 1700000300000000000 (gorm_repo no_faults SQLite 1700000300000000000)
      example_table carol_request =
     (Inr \<lparr>resp_ID = 3, resp_Email = ''carol@example.com'', resp_Name = ''Carol C'', resp_Role = ''user'',
           resp_Active = True, resp_CreatedAt = 1700000300000000000,
           resp_UpdatedAt = 1700000300000000000\<rparr>,
      \<lparr>rows = [alice, bob,
          \<lparr>ID = 3, Email = ''carol@example.com'', Password = ''bcrypt:password123'', Name = ''Carol C'',
           Role = ''user'', Active = True, CreatedAt = 1700000300000000000,
           UpdatedAt = 1700000300000000000\<rparr>],
        next_id = 4\<rparr>,
      [CallGetByEmail '' Carol@Example.com'',
       CallCreate \<lparr>ID = 0, Email = ''carol@example.com'', Password = ''bcrypt:password123'',
                    Name = ''Carol C'', Role = ''user'', Active = True,
                    CreatedAt = 1700000300000000000, UpdatedAt = 1700000300000000000\<rparr>]) \<and>
   req_Role carol_request = ''superuser''"
  using Register_role_active [of example_hash 1700000300000000000
      "gorm_repo no_faults SQLite 1700000300000000000" example_table carol_request
      no_faults SQLite 1700000300000000000 example_table] carol_registered
  by (simp add: carol_request_def)






section \<open>Properties of the document-store repository\<close>

text \<open>
  Claim C5. On the document-store repository, \<open>GetByID\<close> and \<open>Delete\<close> fail for every
  identifier and every collection: \<open>GetByID\<close> returns an error of code \<open>NOT_FOUND\<close> and
  never a user, \<open>Delete\<close> returns an error of code \<open>NOT_FOUND\<close> and leaves the collection
  exactly as it was.
\<close>

theorem mongo_GetByID_Delete_always_NotFound:
  "(\<exists>e. mongo_GetByID coll ident = Inl e \<and> err_Code e = ErrCodeNotFound) \<and>
   (\<exists>e. fst (mongo_Delete coll ident) = Some e \<and> err_Code e = ErrCodeNotFound) \<and>
   snd (mongo_Delete coll ident) = coll"
  by (simp add: mongo_GetByID_def mongo_Delete_def NewError_def err_Code_def)

lemma UpdateOne_frame:
  assumes "\<And>d. g (upd d) = g d"
  shows "map g (snd (UpdateOne filt upd coll)) = map g coll"
  using assms by (induction coll) (auto split: prod.splits)

lemma UpdateOne_first:
  "fst (UpdateOne filt upd coll) \<noteq> 0 \<Longrightarrow>
     \<exists>pre d post. coll = pre @ d # post \<and> filt d \<and> (\<forall>x \<in> set pre. \<not> filt x) \<and>
        snd (UpdateOne filt upd coll) = pre @ upd d # post"
proof (induction coll)
  case Nil
  then show ?case by simp
next
  case (Cons a coll)
  show ?case
  proof (cases "filt a")
    case True
    then have "a # coll = [] @ a # coll \<and> filt a \<and> (\<forall>x \<in> set []. \<not> filt x) \<and>
        snd (UpdateOne filt upd (a # coll)) = [] @ upd a # coll" by simp
    then show ?thesis by blast
  next
    case False
    with Cons.prems have "fst (UpdateOne filt upd coll) \<noteq> 0" by (auto split: prod.splits)
    from Cons.IH [OF this] obtain pre d post where
      c: "coll = pre @ d # post" and f: "filt d" and n: "\<forall>x \<in> set pre. \<not> filt x"
      and s: "snd (UpdateOne filt upd coll) = pre @ upd d # post" by blast
    have "a # coll = (a # pre) @ d # post \<and> filt d \<and> (\<forall>x \<in> set (a # pre). \<not> filt x) \<and>
        snd (UpdateOne filt upd (a # coll)) = (a # pre) @ upd d # post"
      using c f n s False by (auto split: prod.splits)
    then show ?thesis by blast
  qed
qed

text \<open>
  Claim C9. \<open>Update\<close> on the document store leaves the identifier, the email, the
  password and the creation time of every document as they were, and the number and
  order of the documents. It returns no error, \<open>ErrUserNotFound\<close>, or an error of code
  \<open>DATABASE_ERROR\<close>: never \<open>ErrUserExists\<close>, nor any error of code \<open>ALREADY_EXISTS\<close>.
  When it returns no error, the first document with the email of the user has got the
  name, the role and the active flag of the user and the current time as its update
  time, and nothing else has changed.
\<close>

theorem mongo_Update_frame:
  "map other_fields (snd (snd (mongo_Update flt newOID now coll user))) = map other_fields coll \<and>
   (fst (mongo_Update flt newOID now coll user) = None \<or>
    fst (mongo_Update flt newOID now coll user) = Some ErrUserNotFound \<or>
    (\<exists>e. fst (mongo_Update flt newOID now coll user) = Some (WrapError e ErrCodeDatabase ''Failed to update user''))) \<and>
   err_Code ErrUserNotFound \<noteq> ErrCodeAlreadyExists \<and>
   err_Code (WrapError e ErrCodeDatabase ''Failed to update user'') \<noteq> ErrCodeAlreadyExists \<and>
   fst (mongo_Update flt newOID now coll user) \<noteq> Some ErrUserExists \<and>
   (fst (mongo_Update flt newOID now coll user) = None \<longrightarrow>
      (\<exists>pre d post. coll = pre @ d # post \<and> mu_Email d = Email user \<and>
         (\<forall>x \<in> set pre. mu_Email x \<noteq> Email user) \<and>
         snd (snd (mongo_Update flt newOID now coll user)) =
           pre @ d\<lparr>mu_Name := Name user, mu_Role := Role user, mu_Active := Active user,
                    mu_UpdatedAt := now\<rparr> # post))"
proof -
  let ?filt = "\<lambda>d. mu_Email d = Email user"
  let ?upd = "\<lambda>d. d\<lparr>mu_Name := Name user, mu_Role := Role user, mu_Active := Active user,
                    mu_UpdatedAt := now\<rparr>"
  have run: "mongo_Update flt newOID now coll user =
      (case flt UpdateOneCall of
         Some e \<Rightarrow> (Some (WrapError e ErrCodeDatabase ''Failed to update user''), user, coll)
       | None \<Rightarrow>
           if fst (UpdateOne ?filt ?upd coll) = 0
           then (Some ErrUserNotFound, user, snd (UpdateOne ?filt ?upd coll))
           else (None, user\<lparr>UpdatedAt := now\<rparr>, snd (UpdateOne ?filt ?upd coll)))"
    by (simp add: mongo_Update_def fromDomainUser_def split: option.splits prod.splits)
  have frame: "map other_fields (snd (UpdateOne ?filt ?upd coll)) = map other_fields coll"
    by (rule UpdateOne_frame) (simp add: other_fields_def)
  have written: "fst (UpdateOne ?filt ?upd coll) \<noteq> 0 \<Longrightarrow>
      \<exists>pre d post. coll = pre @ d # post \<and> mu_Email d = Email user \<and>
         (\<forall>x \<in> set pre. mu_Email x \<noteq> Email user) \<and>
         snd (UpdateOne ?filt ?upd coll) = pre @ ?upd d # post"
    using UpdateOne_first [of ?filt ?upd coll] by simp
  have codes: "err_Code ErrUserNotFound \<noteq> ErrCodeAlreadyExists"
    "err_Code (WrapError e ErrCodeDatabase ''Failed to update user'') \<noteq> ErrCodeAlreadyExists"
    by (simp_all add: err_Code_def WrapError_def ErrCodeNotFound_def ErrCodeAlreadyExists_def ErrCodeDatabase_def)
  show ?thesis
  proof (cases "flt UpdateOneCall")
    case (Some a)
    with run codes show ?thesis by (simp add: WrapError_def)
  next
    case None
    show ?thesis
    proof (cases "fst (UpdateOne ?filt ?upd coll) = 0")
      case True
      with run None frame codes show ?thesis by simp
    next
      case False
      with run None frame codes written [OF False] show ?thesis by simp
    qed
  qed
qed

text \<open>The theorem at an update of \<open>bob\<close>: his password, email and creation time stay.\<close>

theorem mongo_Update_frame_witness:
  "mongo_Update no_faults 0 1700000500000000000 example_collection
      \<lparr>ID = 1700000100, Email = ''bob@example.com'', Password = ''ignored'', Name = ''Robert B'',
       Role = ''admin'', Active = True, CreatedAt = 0, UpdatedAt = 0\<rparr> =
     (None,
      \<lparr>ID = 1700000100, Email = ''bob@example.com'', Password = ''ignored'', Name = ''Robert B'',
       Role = ''admin'', Active = True, CreatedAt = 0, UpdatedAt = 1700000500000000000\<rparr>,
      [\<lparr>mu_ID = alice_oid, mu_Email = ''alice@example.com'', mu_Password = ''bcrypt:password123'',
        mu_Name = ''Alice A'', mu_Role = ''user'', mu_Active = True,
        mu_CreatedAt = 1700000000000000000, mu_UpdatedAt = 1700000000000000000\<rparr>,
       \<lparr>mu_ID = bob_oid, mu_Email = ''bob@example.com'', mu_Password = ''bcrypt:hunter2hunter2'',
        mu_Name = ''Robert B'', mu_Role = ''admin'', mu_Active = True,
        mu_CreatedAt = 1700000100000000000, mu_UpdatedAt = 1700000500000000000\<rparr>])"
proof -
  have ok: "fst (mongo_Update no_faults 0 1700000500000000000 example_collection
      \<lparr>ID = 1700000100, Email = ''bob@example.com'', Password = ''ignored'', Name = ''Robert B'',
       Role = ''admin'', Active = True, CreatedAt = 0, UpdatedAt = 0\<rparr>) = None"
    by (simp add: mongo_Update_def no_faults_def example_collection_def fromDomainUser_def)
  show ?thesis
    using mongo_Update_frame [of no_faults 0 1700000500000000000 example_collection
      "\<lparr>ID = 1700000100, Email = ''bob@example.com'', Password = ''ignored'', Name = ''Robert B'',
       Role = ''admin'', Active = True, CreatedAt = 0, UpdatedAt = 0\<rparr>"] ok
    by (simp add: mongo_Update_def no_faults_def example_collection_def fromDomainUser_def)
qed

section \<open>The two repositories compared\<close>










lemma toDomainUser_fields [simp]:
  "Active (toDomainUser d) = mu_Active d" "Name (toDomainUser d) = mu_Name d"
  "Email (toDomainUser d) = mu_Email d"
  by (simp_all add: toDomainUser_def)













section \<open>Properties of the migration runner\<close>

subsection \<open>The ledger operations\<close>

lemma executed_fold:
  "(fold (\<lambda>v executed. executed(v \<mapsto> True)) vs ex0 v \<noteq> None) = (v \<in> set vs \<or> ex0 v \<noteq> None)"
  by (induction vs arbitrary: ex0) auto

lemma getExecutedMigrations_Inr:
  assumes "getExecutedMigrations d = Inr ex"
  shows "(ex v \<noteq> None) = (v \<in> set (versions d))"
proof -
  have "ex = fold (\<lambda>v executed. executed(v \<mapsto> True)) (versions d) Map.empty"
    using assms by (auto simp: getExecutedMigrations_def split: handle.splits)
  then show ?thesis using executed_fold [of "versions d" Map.empty v] by simp
qed





subsection \<open>The loop\<close>

text \<open>
  An induction rule that follows the five ways one round of the loop can go: the list is
  exhausted, the migration is skipped, its forward action fails, its ledger row cannot
  be inserted, or it is applied and recorded.
\<close>

lemma recordMigration_None:
  assumes "recordMigration now d m = (None, d')"
  shows "versions d' = versions d @ [Version m]" and "conn d' = conn d"
    and "schema d' = schema d" and "Version m \<notin> set (versions d)"
  using assms
  by (auto simp: recordMigration_def insert_row_def versions_def split: handle.splits if_splits)

lemma recordMigration_Some:
  "recordMigration now d m = (Some e, d') \<Longrightarrow> d' = d"
  by (auto simp: recordMigration_def insert_row_def split: handle.splits if_splits)

lemma versions_schema_update [simp]: "versions (d\<lparr>schema := s\<rparr>) = versions d"
  by (simp add: versions_def)


lemma run_pending_rule [case_names Nil Skip UpFail RecordFail Applied]:
  assumes nil: "\<And>d. P [] d (None, d, [])"
    and skip: "\<And>m ms d e d' lg.
        \<lbrakk>ex (Version m) \<noteq> None; run_pending ex now ms d = (e, d', lg); P ms d (e, d', lg)\<rbrakk>
        \<Longrightarrow> P (m # ms) d (e, d', AlreadyExecuted (Version m) (Description m) # lg)"
    and upfail: "\<And>m ms d c s'.
        \<lbrakk>ex (Version m) = None; Up m (schema d) = (Some c, s')\<rbrakk>
        \<Longrightarrow> P (m # ms) d (Some (UpFailed (Version m) c), d\<lparr>schema := s'\<rparr>,
              [Running (Version m) (Description m)])"
    and recfail: "\<And>m ms d c s'.
        \<lbrakk>ex (Version m) = None; Up m (schema d) = (None, s');
         recordMigration now (d\<lparr>schema := s'\<rparr>) m = (Some c, d\<lparr>schema := s'\<rparr>)\<rbrakk>
        \<Longrightarrow> P (m # ms) d (Some (RecordFailed (Version m) c), d\<lparr>schema := s'\<rparr>,
              [Running (Version m) (Description m)])"
    and applied: "\<And>m ms d s' d1 e d' lg.
        \<lbrakk>ex (Version m) = None; Up m (schema d) = (None, s');
         recordMigration now (d\<lparr>schema := s'\<rparr>) m = (None, d1);
         run_pending ex now ms d1 = (e, d', lg); P ms d1 (e, d', lg)\<rbrakk>
        \<Longrightarrow> P (m # ms) d (e, d', Running (Version m) (Description m) # Completed (Version m) # lg)"
  shows "P ms d (run_pending ex now ms d)"
proof (induction ms arbitrary: d)
  case Nil
  show ?case by (simp add: nil)
next
  case (Cons m ms)
  show ?case
  proof (cases "ex (Version m) \<noteq> None")
    case True
    obtain e d' lg where r: "run_pending ex now ms d = (e, d', lg)"
      by (cases "run_pending ex now ms d")
    from skip [OF True r] Cons.IH [of d] r True show ?thesis by simp
  next
    case False
    then have ex: "ex (Version m) = None" by simp
    obtain ue s' where up: "Up m (schema d) = (ue, s')" by (cases "Up m (schema d)")
    show ?thesis
    proof (cases ue)
      case (Some c)
      with upfail [OF ex] up ex show ?thesis by simp
    next
      case None
      obtain re d1 where rec: "recordMigration now (d\<lparr>schema := s'\<rparr>) m = (re, d1)"
        by (cases "recordMigration now (d\<lparr>schema := s'\<rparr>) m")
      show ?thesis
      proof (cases re)
        case (Some c)
        with rec have d1: "d1 = d\<lparr>schema := s'\<rparr>" by (simp add: recordMigration_Some)
        from recfail [OF ex] up None rec Some d1 ex show ?thesis by simp
      next
        case None2: None
        obtain e d' lg where r: "run_pending ex now ms d1 = (e, d', lg)"
          by (cases "run_pending ex now ms d1")
        from applied [OF ex _ _ r] Cons.IH [of d1] up None rec None2 r ex show ?thesis by simp
      qed
    qed
  qed
qed

lemma run_pending_versions:
  "versions (fst (snd (run_pending ex now ms d))) = versions d @ completed (snd (snd (run_pending ex now ms d)))
   \<and> conn (fst (snd (run_pending ex now ms d))) = conn d"
  by (rule run_pending_rule [where P = "\<lambda>ms d r. versions (fst (snd r)) = versions d @ completed (snd (snd r)) \<and> conn (fst (snd r)) = conn d"])
     (simp_all add: recordMigration_None)


lemma run_pending_visited:
  "\<exists>rest. map Version ms = visited (snd (snd (run_pending ex now ms d))) @ rest \<and>
      (fst (run_pending ex now ms d) = None \<longrightarrow> rest = [])"
  by (rule run_pending_rule [where P = "\<lambda>ms d r. \<exists>rest. map Version ms = visited (snd (snd r)) @ rest \<and> (fst r = None \<longrightarrow> rest = [])"])
     simp_all

lemma run_pending_ups:
  "ups (snd (snd (run_pending ex now ms d))) =
     completed (snd (snd (run_pending ex now ms d))) @
       (case fst (run_pending ex now ms d) of
          None \<Rightarrow> [] | Some (UpFailed v c) \<Rightarrow> [v] | Some (RecordFailed v c) \<Rightarrow> [v] | Some _ \<Rightarrow> [])"
  by (rule run_pending_rule [where P = "\<lambda>ms d r. ups (snd (snd r)) = completed (snd (snd r)) @
       (case fst r of None \<Rightarrow> [] | Some (UpFailed v c) \<Rightarrow> [v] | Some (RecordFailed v c) \<Rightarrow> [v] | Some _ \<Rightarrow> [])"])
     simp_all



lemma run_pending_UpFailed:
  "run_pending ex now pre d = (None, d1, lg1) \<Longrightarrow> ex (Version mg) = None \<Longrightarrow>
   Up mg (schema d1) = (Some cause, s') \<Longrightarrow>
   run_pending ex now (pre @ mg # post) d =
     (Some (UpFailed (Version mg) cause), d1\<lparr>schema := s'\<rparr>,
      lg1 @ [Running (Version mg) (Description mg)])"
proof (induction pre arbitrary: d lg1)
  case Nil
  then show ?case by simp
next
  case (Cons m pre)
  then show ?case
    by (auto split: if_splits prod.splits option.splits)
qed

lemma visited_append: "visited (a @ b) = visited a @ visited b"
  by (induction a rule: visited.induct) simp_all
lemma ups_append: "ups (a @ b) = ups a @ ups b"
  by (induction a rule: ups.induct) simp_all
lemma completed_append: "completed (a @ b) = completed a @ completed b"
  by (induction a rule: completed.induct) simp_all

lemma Migrate_visited:
  "\<exists>rest. map Version (sort_key Version (migrations m)) = visited (snd (snd (Migrate now m))) @ rest"
proof -
  have "\<exists>rest. map Version ms = visited (snd (snd (run_pending ex now ms d))) @ rest" for ex ms and d :: "'a Connection"
    using run_pending_visited [of ms ex now d] by blast
  then show ?thesis
    by (auto simp: Migrate_def Let_def split: option.splits sum.splits prod.splits) (metis snd_conv)
qed

subsection \<open>Running the migrations twice\<close>




subsection \<open>A failing forward action\<close>

lemma Migrate_UpFailed_run:
  assumes ens: "ensureMigrationTracking (db m) = None"
    and gx: "getExecutedMigrations (db m) = Inr ex"
    and split: "sort_key Version (migrations m) = pre @ mg # post"
    and before: "run_pending ex now pre (db m) = (None, d1, lg1)"
    and pending: "Version mg \<notin> set (versions (db m))"
    and fails: "Up mg (schema d1) = (Some cause, s')"
  shows "Migrate now m =
           (Some (UpFailed (Version mg) cause),
            m\<lparr>migrations := pre @ mg # post, db := d1\<lparr>schema := s'\<rparr>\<rparr>,
            lg1 @ [Running (Version mg) (Description mg)]) \<and>
         Error_text (UpFailed (Version mg) cause) = ''migration '' @ Version mg @ '' failed: '' @ cause \<and>
         sorted (map Version (pre @ mg # post)) \<and>
         visited (lg1 @ [Running (Version mg) (Description mg)]) = map Version pre @ [Version mg] \<and>
         ups (lg1 @ [Running (Version mg) (Description mg)]) = completed lg1 @ [Version mg] \<and>
         completed (lg1 @ [Running (Version mg) (Description mg)]) = completed lg1 \<and>
         versions (d1\<lparr>schema := s'\<rparr>) = versions (db m) @ completed lg1"
proof -
  have p: "ex (Version mg) = None"
    using getExecutedMigrations_Inr [OF gx, of "Version mg"] pending by simp
  have rp: "run_pending ex now (pre @ mg # post) (db m) =
      (Some (UpFailed (Version mg) cause), d1\<lparr>schema := s'\<rparr>,
       lg1 @ [Running (Version mg) (Description mg)])"
    using before p fails by (rule run_pending_UpFailed)
  have run: "Migrate now m =
           (Some (UpFailed (Version mg) cause),
            m\<lparr>migrations := pre @ mg # post, db := d1\<lparr>schema := s'\<rparr>\<rparr>,
            lg1 @ [Running (Version mg) (Description mg)])"
    using ens gx rp by (simp add: Migrate_def split)
  have "sorted (map Version (sort_key Version (migrations m)))"
    by (rule sorted_sort_key)
  then have srt: "sorted (map Version (pre @ mg # post))" by (simp only: split)
  have vis: "visited lg1 = map Version pre"
    using run_pending_visited [of pre ex now "db m"] before by auto
  have up: "ups lg1 = completed lg1"
    using run_pending_ups [of ex now pre "db m"] before by simp
  have ver: "versions d1 = versions (db m) @ completed lg1"
    using run_pending_versions [of ex now pre "db m"] before by simp
  from run srt vis up ver show ?thesis
    by (simp add: visited_append ups_append completed_append)
qed

lemma sorted_example:
  "sort_key Version (migrations example_migrator) = [mig_users, mig_roles] @ mig_broken # [mig_late]"
  by (simp add: ok_up_def failing_up_def no_down_def mig_users_def mig_roles_def mig_broken_def mig_late_def users_row_def example_db_def example_migrator_def)

lemma before_example:
  "run_pending (fold (\<lambda>v executed. executed(v \<mapsto> True)) [''20240815120000''] Map.empty) 7
      [mig_users, mig_roles] example_db =
     (None, \<lparr>conn = GORM,
        ledger = [users_row, \<lparr>lr_version = ''20240901093000'', lr_description = ''Create roles table'', lr_executed_at = 7\<rparr>],
        schema = [''users'', ''roles'']\<rparr>,
      [AlreadyExecuted ''20240815120000'' ''Create users table/collection'',
       Running ''20240901093000'' ''Create roles table'', Completed ''20240901093000''])"
  by (simp add: ok_up_def failing_up_def no_down_def mig_users_def mig_roles_def mig_broken_def mig_late_def users_row_def example_db_def example_migrator_def Migrate_def ensureMigrationTracking_def getExecutedMigrations_def versions_def recordMigration_def insert_row_def)

text \<open>
  Claim C4. Every run of \<open>Migrate\<close> visits the registered migrations in ascending order
  of their version strings: the versions it visits, in the order of the visits, are an
  initial part of the sorted list of versions. Let \<open>mg\<close> be a migration of the sorted list
  that is not in the ledger, let every migration before it have been skipped or applied
  and recorded, and let the forward action of \<open>mg\<close> fail with \<open>cause\<close>. Then the run
  returns at once the error \<open>migration <version> failed: <cause>\<close>; the migrations after
  \<open>mg\<close> are neither visited nor executed (the log ends with the call of \<open>mg\<close>); and the
  ledger holds the versions it held before the run followed by the versions applied in
  this run before the failure, which stay recorded.
\<close>

theorem Migrate_ordered_abort:
  "sorted (visited (snd (snd (Migrate now m)))) \<and>
   (\<exists>rest. map Version (sort_key Version (migrations m)) = visited (snd (snd (Migrate now m))) @ rest) \<and>
   (ensureMigrationTracking (db m) = None \<and>
    getExecutedMigrations (db m) = Inr ex \<and>
    sort_key Version (migrations m) = pre @ mg # post \<and>
    run_pending ex now pre (db m) = (None, d1, lg1) \<and>
    Version mg \<notin> set (versions (db m)) \<and>
    Up mg (schema d1) = (Some cause, s') \<longrightarrow>
      Migrate now m =
        (Some (UpFailed (Version mg) cause),
         m\<lparr>migrations := pre @ mg # post, db := d1\<lparr>schema := s'\<rparr>\<rparr>,
         lg1 @ [Running (Version mg) (Description mg)]) \<and>
      Error_text (UpFailed (Version mg) cause) = ''migration '' @ Version mg @ '' failed: '' @ cause \<and>
      visited (lg1 @ [Running (Version mg) (Description mg)]) = map Version pre @ [Version mg] \<and>
      ups (lg1 @ [Running (Version mg) (Description mg)]) = completed lg1 @ [Version mg] \<and>
      completed (lg1 @ [Running (Version mg) (Description mg)]) = completed lg1 \<and>
      versions (d1\<lparr>schema := s'\<rparr>) = versions (db m) @ completed lg1)"
proof -
  obtain rest where pre: "map Version (sort_key Version (migrations m)) =
      visited (snd (snd (Migrate now m))) @ rest"
    using Migrate_visited [of m now] by blast
  have "sorted (map Version (sort_key Version (migrations m)))"
    by (rule sorted_sort_key)
  then have "sorted (visited (snd (snd (Migrate now m))))"
    by (simp only: pre sorted_append)
  with pre show ?thesis
    using Migrate_UpFailed_run [of m ex pre mg post now d1 lg1 cause s'] by blast
qed

text \<open>
  The theorem at a migrator with four migrations registered out of order, the oldest of
  which is in the ledger already: the second is applied and recorded, the third fails,
  the fourth is never reached.
\<close>

theorem Migrate_ordered_abort_witness:
  "Migrate 7 example_migrator =
     (Some (UpFailed ''20241001080000'' ''syntax error''),
      \<lparr>db = \<lparr>conn = GORM,
          ledger = [users_row, \<lparr>lr_version = ''20240901093000'', lr_description = ''Create roles table'', lr_executed_at = 7\<rparr>],
          schema = [''users'', ''roles'']\<rparr>,
       migrations = [mig_users, mig_roles, mig_broken, mig_late]\<rparr>,
      [AlreadyExecuted ''20240815120000'' ''Create users table/collection'',
       Running ''20240901093000'' ''Create roles table'', Completed ''20240901093000'',
       Running ''20241001080000'' ''Add audit table'']) \<and>
   Error_text (UpFailed ''20241001080000'' ''syntax error'') = ''migration 20241001080000 failed: syntax error'' \<and>
   versions \<lparr>conn = GORM,
          ledger = [users_row, \<lparr>lr_version = ''20240901093000'', lr_description = ''Create roles table'', lr_executed_at = 7\<rparr>],
          schema = [''users'', ''roles'']\<rparr> = [''20240815120000'', ''20240901093000'']"
proof -
  have ens: "ensureMigrationTracking (db example_migrator) = None"
    by (simp add: ok_up_def failing_up_def no_down_def mig_users_def mig_roles_def mig_broken_def mig_late_def users_row_def example_db_def example_migrator_def Migrate_def ensureMigrationTracking_def getExecutedMigrations_def versions_def recordMigration_def insert_row_def)
  have gx: "getExecutedMigrations (db example_migrator) =
      Inr (fold (\<lambda>v executed. executed(v \<mapsto> True)) [''20240815120000''] Map.empty)"
    by (simp add: ok_up_def failing_up_def no_down_def mig_users_def mig_roles_def mig_broken_def mig_late_def users_row_def example_db_def example_migrator_def Migrate_def ensureMigrationTracking_def getExecutedMigrations_def versions_def recordMigration_def insert_row_def)
  have before: "run_pending (fold (\<lambda>v executed. executed(v \<mapsto> True)) [''20240815120000''] Map.empty) 7
      [mig_users, mig_roles] (db example_migrator) =
     (None, \<lparr>conn = GORM,
        ledger = [users_row, \<lparr>lr_version = ''20240901093000'', lr_description = ''Create roles table'', lr_executed_at = 7\<rparr>],
        schema = [''users'', ''roles'']\<rparr>,
      [AlreadyExecuted ''20240815120000'' ''Create users table/collection'',
       Running ''20240901093000'' ''Create roles table'', Completed ''20240901093000''])"
    using before_example by (simp add: example_migrator_def)
  have pending: "Version mig_broken \<notin> set (versions (db example_migrator))"
    by (simp add: ok_up_def failing_up_def no_down_def mig_users_def mig_roles_def mig_broken_def mig_late_def users_row_def example_db_def example_migrator_def Migrate_def ensureMigrationTracking_def getExecutedMigrations_def versions_def recordMigration_def insert_row_def)
  have fails: "Up mig_broken (schema \<lparr>conn = GORM,
        ledger = [users_row, \<lparr>lr_version = ''20240901093000'', lr_description = ''Create roles table'', lr_executed_at = 7\<rparr>],
        schema = [''users'', ''roles'']\<rparr>) = (Some ''syntax error'', [''users'', ''roles''])"
    by (simp add: ok_up_def failing_up_def no_down_def mig_users_def mig_roles_def mig_broken_def mig_late_def users_row_def example_db_def example_migrator_def)
  note abort = Migrate_ordered_abort [THEN conjunct2, THEN conjunct2, THEN mp,
      OF conjI [OF ens conjI [OF gx conjI [OF sorted_example conjI [OF before conjI [OF pending fails]]]]]]
  show ?thesis
    using abort
    by (simp add: ok_up_def failing_up_def no_down_def mig_users_def mig_roles_def mig_broken_def
        mig_late_def users_row_def example_db_def example_migrator_def versions_def)
qed

end
